theory Spec2Isabelle
  imports Main
begin

section \<open>Python values used by the script\<close>

text \<open>
  The script \<^verbatim>\<open>main.py\<close> is one module: \<^verbatim>\<open>get_calendar_service\<close> (OAuth token
  lifecycle), the tool \<^verbatim>\<open>create_google_calendar_event\<close>, \<^verbatim>\<open>run_agent\<close> and the
  \<^verbatim>\<open>__main__\<close> block with the conversation loop. Everything it calls in the Google
  and LangChain libraries is outside the repository; the outcome of each such call is a
  field of a \<open>world\<close> record, and a run of the agent runtime is a value of \<open>runtime\<close>,
  so that the theorems hold for every behaviour of these collaborators.

  A Python string is modelled as a list of code points below 256. A JSON value is a
  value of \<open>json\<close>; numbers that are not integers are left out.
\<close>

datatype json =
    JNull
  | JBool bool
  | JInt int
  | JString string
  | JArray "json list"
  | JObject "(string \<times> json) list"

subsection \<open>\<^verbatim>\<open>json.dumps\<close> with its default arguments\<close>

definition hex_digit :: "nat \<Rightarrow> char" where
  "hex_digit n = ''0123456789abcdef'' ! (n mod 16)"

fun decimal :: "nat \<Rightarrow> string" where
  "decimal n =
     (if n < 10 then [hex_digit n] else decimal (n div 10) @ [hex_digit (n mod 10)])"

declare decimal.simps [simp del]

fun join :: "string \<Rightarrow> string list \<Rightarrow> string" where
  "join sep [] = []"
| "join sep [x] = x"
| "join sep (x # y # ys) = x @ sep @ join sep (y # ys)"

text \<open>
  \<^verbatim>\<open>ensure_ascii=True\<close>: the quote and the backslash are escaped with a backslash, the
  five control characters with a short name get it, a printable ASCII character stands
  for itself, and every other code point is written \<^verbatim>\<open>\u00xx\<close>.
\<close>

definition escape_char :: "char \<Rightarrow> string" where
  "escape_char c =
     (if c = CHR 0x22 then [CHR 0x5C, CHR 0x22]
      else if c = CHR 0x5C then [CHR 0x5C, CHR 0x5C]
      else if c = CHR 0x0A then [CHR 0x5C, CHR ''n'']
      else if c = CHR 0x0D then [CHR 0x5C, CHR ''r'']
      else if c = CHR 0x09 then [CHR 0x5C, CHR ''t'']
      else if c = CHR 0x08 then [CHR 0x5C, CHR ''b'']
      else if c = CHR 0x0C then [CHR 0x5C, CHR ''f'']
      else if 32 \<le> (of_char c :: nat) \<and> (of_char c :: nat) \<le> 126 then [c]
      else [CHR 0x5C, CHR ''u'', CHR ''0'', CHR ''0'',
            hex_digit ((of_char c :: nat) div 16), hex_digit (of_char c :: nat)])"

definition json_quote :: "string \<Rightarrow> string" where
  "json_quote s = CHR 0x22 # concat (map escape_char s) @ [CHR 0x22]"

text \<open>The default separators are \<^verbatim>\<open>", "\<close> between items and \<^verbatim>\<open>": "\<close> after a key.\<close>

fun json_dumps :: "json \<Rightarrow> string" where
  "json_dumps JNull = ''null''"
| "json_dumps (JBool b) = (if b then ''true'' else ''false'')"
| "json_dumps (JInt i) = (if i < 0 then CHR ''-'' # decimal (nat (- i)) else decimal (nat i))"
| "json_dumps (JString s) = json_quote s"
| "json_dumps (JArray xs) = ''['' @ join '', '' (map json_dumps xs) @ '']''"
| "json_dumps (JObject kvs) =
     ''{'' @ join '', '' (map (\<lambda>(k, v). json_quote k @ '': '' @ json_dumps v) kvs) @ ''}''"

subsection \<open>Exceptions, effects and the monad of a Python call\<close>

text \<open>
  An exception is a subclass of \<^verbatim>\<open>Exception\<close>: the Google client's \<^verbatim>\<open>HttpError\<close> or
  any other one, each carrying the text \<^verbatim>\<open>str(e)\<close>. Signals that are not subclasses
  of \<^verbatim>\<open>Exception\<close> (\<^verbatim>\<open>KeyboardInterrupt\<close>, \<^verbatim>\<open>SystemExit\<close>) are not modelled.
\<close>

datatype exn = HttpError string | OtherException string

fun exn_str :: "exn \<Rightarrow> string" where
  "exn_str (HttpError m) = m"
| "exn_str (OtherException m) = m"

text \<open>
  What the code reads of a \<^verbatim>\<open>google.oauth2.credentials.Credentials\<close> object: the
  access token and the three attributes \<^verbatim>\<open>valid\<close>, \<^verbatim>\<open>expired\<close> and
  \<^verbatim>\<open>refresh_token\<close>.
\<close>

record credentials =
  token :: "string option"
  valid :: bool
  expired :: bool
  refresh_token :: "string option"

text \<open>The service object returned by \<^verbatim>\<open>build\<close> holds the credentials it was built with.\<close>

datatype service = Service credentials

datatype message = HumanMessage string | AIMessage string | OtherMessage string

fun content :: "message \<Rightarrow> string" where
  "content (HumanMessage c) = c"
| "content (AIMessage c) = c"
| "content (OtherMessage c) = c"

datatype level = INFO | WARNING | ERROR

text \<open>
  Every call that leaves the script is recorded, in order: the file system, the auth
  provider (\<open>Refresh\<close>, \<open>RunFlow\<close>), the calendar provider (\<open>Insert\<close>), the logger, the
  terminal and the agent runtime.
\<close>

datatype effect =
    PathExists string
  | LoadToken
  | Refresh credentials
  | RunFlow
  | WriteToken credentials
  | Build credentials
  | Insert string json
  | Log level string
  | LogEventCreated json
  | Print string
  | PrintInline string
  | Input string
  | AgentInvoke "message list" nat

type_synonym 'a io = "(exn + 'a) \<times> effect list"

definition ret :: "'a \<Rightarrow> 'a io" where
  "ret x = (Inr x, [])"

definition raise :: "exn \<Rightarrow> 'a io" where
  "raise e = (Inl e, [])"

definition emit :: "effect \<Rightarrow> unit io" where
  "emit ef = (Inr (), [ef])"

text \<open>\<open>call ef r\<close>: an external call, recorded as \<open>ef\<close>, that returns or raises as \<open>r\<close> says.\<close>

definition call :: "effect \<Rightarrow> exn + 'a \<Rightarrow> 'a io" where
  "call ef r = (r, [ef])"

definition io_bind :: "'a io \<Rightarrow> ('a \<Rightarrow> 'b io) \<Rightarrow> 'b io" where
  "io_bind m f =
     (case m of
        (Inl e, t) \<Rightarrow> (Inl e, t)
      | (Inr x, t) \<Rightarrow> (case f x of (r, t') \<Rightarrow> (r, t @ t')))"

text \<open>\<^verbatim>\<open>try: m  except Exception as e: h e\<close>\<close>

definition try_except :: "'a io \<Rightarrow> (exn \<Rightarrow> 'a io) \<Rightarrow> 'a io" where
  "try_except m h =
     (case m of
        (Inl e, t) \<Rightarrow> (case h e of (r, t') \<Rightarrow> (r, t @ t'))
      | (Inr x, t) \<Rightarrow> (Inr x, t))"

definition io_map :: "('a \<Rightarrow> 'b) \<Rightarrow> 'a io \<Rightarrow> 'b io" where
  "io_map f m = io_bind m (\<lambda>x. ret (f x))"

definition print_lines :: "string list \<Rightarrow> unit io" where
  "print_lines ls = (Inr (), map Print ls)"

section \<open>The world outside the script\<close>

text \<open>
  One invocation of \<^verbatim>\<open>get_calendar_service\<close> or of the tool makes each external call
  at most once, so the world of an invocation gives one outcome per call.
\<close>

record world =
  path_exists :: "string \<Rightarrow> bool"
  from_authorized_user_file :: "exn + credentials"
  refresh :: "credentials \<Rightarrow> exn + credentials"
  run_local_server :: "exn + credentials"
  write_token :: "credentials \<Rightarrow> exn + unit"
  build :: "credentials \<Rightarrow> exn + unit"
  execute_insert :: "service \<Rightarrow> json \<Rightarrow> exn + json"

definition TOKEN_PATH :: string where
  "TOKEN_PATH = ''token.json''"

definition CREDENTIALS_PATH :: string where
  "CREDENTIALS_PATH = ''credentials.json''"

section \<open>\<^verbatim>\<open>get_calendar_service\<close>\<close>

text \<open>Python truthiness of \<^verbatim>\<open>creds.refresh_token\<close>: neither \<^verbatim>\<open>None\<close> nor empty.\<close>

fun truthy :: "string option \<Rightarrow> bool" where
  "truthy None = False"
| "truthy (Some s) = (s \<noteq> [])"

text \<open>Lines 44-51: \<^verbatim>\<open>creds = None\<close>, then the stored token is loaded if the file exists.\<close>

definition gcs_load :: "world \<Rightarrow> credentials option io" where
  "gcs_load w =
     io_bind (call (PathExists TOKEN_PATH) (Inr (path_exists w TOKEN_PATH))) (\<lambda>ex.
       if ex then
         try_except
           (io_bind (call LoadToken (from_authorized_user_file w)) (\<lambda>c. ret (Some c)))
           (\<lambda>e. io_bind
              (emit (Log WARNING
                 (''Could not load credentials from '' @ TOKEN_PATH @ '': '' @ exn_str e)))
              (\<lambda>_. ret None))
       else ret None)"

text \<open>Lines 55-60: \<^verbatim>\<open>if creds and creds.expired and creds.refresh_token\<close>.\<close>

definition gcs_refresh :: "world \<Rightarrow> credentials option \<Rightarrow> credentials option io" where
  "gcs_refresh w creds =
     (case creds of
        None \<Rightarrow> ret None
      | Some c \<Rightarrow>
          if expired c \<and> truthy (refresh_token c) then
            try_except
              (io_bind (call (Refresh c) (refresh w c)) (\<lambda>c'. ret (Some c')))
              (\<lambda>e. io_bind
                 (emit (Log ERROR (''Error refreshing token: '' @ exn_str e)))
                 (\<lambda>_. ret None))
          else ret (Some c))"

text \<open>
  Lines 62-72: \<^verbatim>\<open>if not creds\<close>. The result \<open>None\<close> is the statement
  \<^verbatim>\<open>return None\<close>; \<open>Some c\<close> goes on to line 75 with \<^verbatim>\<open>creds = c\<close>.
\<close>

definition gcs_login :: "world \<Rightarrow> credentials option \<Rightarrow> credentials option io" where
  "gcs_login w creds =
     (case creds of
        Some c \<Rightarrow> ret (Some c)
      | None \<Rightarrow>
          io_bind (call (PathExists CREDENTIALS_PATH) (Inr (path_exists w CREDENTIALS_PATH)))
            (\<lambda>ex.
              if \<not> ex then
                io_bind (emit (Log ERROR (''Missing credentials file: '' @ CREDENTIALS_PATH)))
                  (\<lambda>_. io_bind
                     (emit (Log ERROR
                        ''Please download it from the Google Cloud Console and save it in this directory.''))
                     (\<lambda>_. ret None))
              else
                try_except
                  (io_bind (call RunFlow (run_local_server w)) (\<lambda>c. ret (Some c)))
                  (\<lambda>e. io_bind
                     (emit (Log ERROR (''Error during authentication flow: '' @ exn_str e)))
                     (\<lambda>_. ret None))))"

text \<open>Lines 75-80: the token file is written; a failure is logged and nothing more.\<close>

definition gcs_save :: "world \<Rightarrow> credentials \<Rightarrow> unit io" where
  "gcs_save w c =
     try_except
       (io_bind (call (WriteToken c) (write_token w c))
          (\<lambda>_. emit (Log INFO (''Credentials saved to '' @ TOKEN_PATH))))
       (\<lambda>e. emit (Log ERROR (''Error saving token to '' @ TOKEN_PATH @ '': '' @ exn_str e)))"

text \<open>Lines 82-87.\<close>

definition gcs_build :: "world \<Rightarrow> credentials \<Rightarrow> service option io" where
  "gcs_build w c =
     try_except
       (io_bind (call (Build c) (build w c)) (\<lambda>_. ret (Some (Service c))))
       (\<lambda>e. io_bind
          (emit (Log ERROR (''Error building Google Calendar service: '' @ exn_str e)))
          (\<lambda>_. ret None))"

text \<open>Lines 55-87, entered when \<^verbatim>\<open>not creds or not creds.valid\<close>.\<close>

definition gcs_renew :: "world \<Rightarrow> credentials option \<Rightarrow> service option io" where
  "gcs_renew w creds =
     io_bind (gcs_refresh w creds) (\<lambda>creds'.
     io_bind (gcs_login w creds') (\<lambda>r.
       case r of
         None \<Rightarrow> ret None
       | Some c \<Rightarrow> io_bind (gcs_save w c) (\<lambda>_. gcs_build w c)))"

definition get_calendar_service :: "world \<Rightarrow> service option io" where
  "get_calendar_service w =
     io_bind (gcs_load w) (\<lambda>creds.
       case creds of
         None \<Rightarrow> gcs_renew w None
       | Some c \<Rightarrow> if \<not> valid c then gcs_renew w (Some c) else gcs_build w c)"

section \<open>The tool \<^verbatim>\<open>create_google_calendar_event\<close>\<close>

text \<open>
  The arguments the body of the function receives, after the wrapper of the decorator
  has validated the call (see \<open>invoke_tool\<close> below). \<open>None\<close> for \<open>description\<close> or
  \<open>location\<close> is the default \<^verbatim>\<open>None\<close>; \<open>None\<close> for \<open>timezone\<close> is an argument that
  was not passed, so that the default \<^verbatim>\<open>"Asia/Singapore"\<close> applies.
\<close>

record tool_args =
  summary :: string
  start_time :: string
  end_time :: string
  description :: "string option"
  location :: "string option"
  timezone :: "string option"

fun py_opt :: "string option \<Rightarrow> json" where
  "py_opt None = JNull"
| "py_opt (Some s) = JString s"

definition timezone_of :: "tool_args \<Rightarrow> string" where
  "timezone_of a = (case timezone a of None \<Rightarrow> ''Asia/Singapore'' | Some z \<Rightarrow> z)"

text \<open>Lines 117-129: the dictionary \<^verbatim>\<open>event\<close>.\<close>

definition event_body :: "tool_args \<Rightarrow> (string \<times> json) list" where
  "event_body a =
     [(''summary'', JString (summary a)),
      (''location'', py_opt (location a)),
      (''description'', py_opt (description a)),
      (''start'', JObject [(''dateTime'', JString (start_time a)),
                           (''timeZone'', JString (timezone_of a))]),
      (''end'', JObject [(''dateTime'', JString (end_time a)),
                         (''timeZone'', JString (timezone_of a))])]"

fun type_name :: "json \<Rightarrow> string" where
  "type_name JNull = ''NoneType''"
| "type_name (JBool _) = ''bool''"
| "type_name (JInt _) = ''int''"
| "type_name (JString _) = ''str''"
| "type_name (JArray _) = ''list''"
| "type_name (JObject _) = ''dict''"

text \<open>
  \<^verbatim>\<open>created_event.get(k)\<close>: a dictionary gives the value or \<^verbatim>\<open>None\<close>; any other value
  has no method \<^verbatim>\<open>get\<close>, which raises \<^verbatim>\<open>AttributeError\<close>.
\<close>

definition attribute_error :: "json \<Rightarrow> string" where
  "attribute_error j =
     CHR 0x27 # type_name j @ CHR 0x27 # '' object has no attribute ''
       @ CHR 0x27 # ''get'' @ [CHR 0x27]"

fun py_get :: "json \<Rightarrow> string \<Rightarrow> json io" where
  "py_get (JObject kvs) k = ret (case map_of kvs k of None \<Rightarrow> JNull | Some v \<Rightarrow> v)"
| "py_get j k = raise (OtherException (attribute_error j))"

text \<open>
  Every \<^verbatim>\<open>return\<close> of the function is \<^verbatim>\<open>return json.dumps(d)\<close> for a dictionary
  \<open>d\<close>; \<open>tool_payload\<close> computes \<open>d\<close> (lines 113-146) and
  \<open>create_google_calendar_event\<close>, the body of lines 91-146, serialises it.
\<close>

definition tool_payload :: "world \<Rightarrow> tool_args \<Rightarrow> (string \<times> json) list io" where
  "tool_payload w a =
     io_bind (get_calendar_service w) (\<lambda>service.
       case service of
         None \<Rightarrow>
           ret [(''error'',
                 JString ''Failed to get Google Calendar service. Check authentication.'')]
       | Some svc \<Rightarrow>
           try_except
             (io_bind (call (Insert ''primary'' (JObject (event_body a)))
                         (execute_insert w svc (JObject (event_body a)))) (\<lambda>created_event.
              io_bind (py_get created_event ''summary'') (\<lambda>logged.
              io_bind (emit (LogEventCreated logged)) (\<lambda>_.
              io_bind (py_get created_event ''summary'') (\<lambda>s.
              io_bind (py_get created_event ''htmlLink'') (\<lambda>l.
                ret [(''status'', JString ''success''), (''summary'', s), (''htmlLink'', l)]))))))
             (\<lambda>e. case e of
                HttpError m \<Rightarrow>
                  io_bind (emit (Log ERROR (''An error occurred: '' @ m)))
                    (\<lambda>_. ret [(''error'', JString m)])
              | OtherException m \<Rightarrow>
                  io_bind (emit (Log ERROR (''An unexpected error occurred: '' @ m)))
                    (\<lambda>_. ret [(''error'', JString (''An unexpected error occurred: '' @ m))])))"

definition create_google_calendar_event :: "world \<Rightarrow> tool_args \<Rightarrow> string io" where
  "create_google_calendar_event w a = io_map (\<lambda>d. json_dumps (JObject d)) (tool_payload w a)"

subsection \<open>The \<^verbatim>\<open>@tool\<close> wrapper of line 90\<close>

text \<open>
  The decorator turns the function into a tool object, the one in \<^verbatim>\<open>TOOLS\<close>. A call
  of the tool brings a dictionary of arguments; the wrapper checks it against the schema
  of the signature (lines 92-97) and raises \<^verbatim>\<open>ValidationError\<close> to its caller, before
  the body runs, when \<open>summary\<close>, \<open>start_time\<close> or \<open>end_time\<close> is missing, or when any
  of the six arguments is given with a value that is not a string (an explicit null
  included). Keys outside the schema are dropped. The dictionary has each key once.
\<close>

type_synonym raw_args = "(string \<times> json) list"

datatype field_error = Missing string | NotAString string

definition check_required :: "raw_args \<Rightarrow> string \<Rightarrow> field_error list" where
  "check_required raw k =
     (case map_of raw k of
        None \<Rightarrow> [Missing k]
      | Some (JString _) \<Rightarrow> []
      | Some _ \<Rightarrow> [NotAString k])"

definition check_optional :: "raw_args \<Rightarrow> string \<Rightarrow> field_error list" where
  "check_optional raw k =
     (case map_of raw k of
        None \<Rightarrow> []
      | Some (JString _) \<Rightarrow> []
      | Some _ \<Rightarrow> [NotAString k])"

definition field_errors :: "raw_args \<Rightarrow> field_error list" where
  "field_errors raw =
     concat (map (check_required raw) [''summary'', ''start_time'', ''end_time''])
       @ concat (map (check_optional raw) [''description'', ''location'', ''timezone''])"

definition given :: "raw_args \<Rightarrow> string \<Rightarrow> string option" where
  "given raw k = (case map_of raw k of Some (JString s) \<Rightarrow> Some s | _ \<Rightarrow> None)"

definition required :: "raw_args \<Rightarrow> string \<Rightarrow> string" where
  "required raw k = (case given raw k of None \<Rightarrow> [] | Some s \<Rightarrow> s)"

definition validate_args :: "raw_args \<Rightarrow> field_error list + tool_args" where
  "validate_args raw =
     (if field_errors raw = [] then
        Inr \<lparr>summary = required raw ''summary'', start_time = required raw ''start_time'',
             end_time = required raw ''end_time'', description = given raw ''description'',
             location = given raw ''location'', timezone = given raw ''timezone''\<rparr>
      else Inl (field_errors raw))"

text \<open>What the caller of the tool gets: an exception or the returned string.\<close>

datatype tool_result = ValidationError "field_error list" | Raised exn | Returned string

definition invoke_tool :: "world \<Rightarrow> raw_args \<Rightarrow> tool_result \<times> effect list" where
  "invoke_tool w raw =
     (case validate_args raw of
        Inl errs \<Rightarrow> (ValidationError errs, [])
      | Inr a \<Rightarrow>
          (case create_google_calendar_event w a of
             (Inl e, t) \<Rightarrow> (Raised e, t)
           | (Inr s, t) \<Rightarrow> (Returned s, t)))"

section \<open>\<^verbatim>\<open>run_agent\<close> and the conversation loop\<close>

text \<open>
  One run of \<^verbatim>\<open>agent.invoke\<close> is a value of \<open>runtime\<close>: the runtime answers with the
  list under \<^verbatim>\<open>"messages"\<close>, or raises, or calls the tool with some arguments, in the
  world that this call finds, and goes on as the result of the call tells it. What a
  tool call does (token file, auth provider, calendar provider, log) enters the trace
  of the turn. An agent gives the run for the messages of a turn.
\<close>

datatype runtime =
    Respond "message list"
  | Fail exn
  | UseTool world raw_args "tool_result \<Rightarrow> runtime"

primrec run_runtime :: "runtime \<Rightarrow> message list io" where
  "run_runtime (Respond ms) = ret ms"
| "run_runtime (Fail e) = raise e"
| "run_runtime (UseTool w raw next) =
     (fst (run_runtime (next (fst (invoke_tool w raw)))),
      snd (invoke_tool w raw) @ snd (run_runtime (next (fst (invoke_tool w raw)))))"

type_synonym agent = "message list \<Rightarrow> runtime"

text \<open>Lines 172-175: \<^verbatim>\<open>agent.invoke({"messages": ...}, config={"recursion_limit": 50})\<close>.\<close>

definition agent_invoke :: "agent \<Rightarrow> message list \<Rightarrow> message list io" where
  "agent_invoke agent messages =
     io_bind (emit (AgentInvoke messages 50)) (\<lambda>_. run_runtime (agent messages))"

text \<open>\<^verbatim>\<open>xs[-1]\<close> raises \<^verbatim>\<open>IndexError\<close> on the empty list.\<close>

fun last_item :: "'a list \<Rightarrow> 'a io" where
  "last_item [] = raise (OtherException ''list index out of range'')"
| "last_item (x # xs) = ret (last (x # xs))"

definition agent_error_text :: "exn \<Rightarrow> string" where
  "agent_error_text e =
     ''Error: '' @ exn_str e @ [CHR 0x0A, CHR 0x0A]
       @ ''Please try rephrasing your request or provide more specific details.''"

text \<open>Lines 169-180.\<close>

definition run_agent :: "agent \<Rightarrow> string \<Rightarrow> message list \<Rightarrow> message io" where
  "run_agent agent user_input history =
     try_except
       (io_bind (agent_invoke agent (history @ [HumanMessage user_input]))
          (\<lambda>messages. last_item messages))
       (\<lambda>e. ret (AIMessage (agent_error_text e)))"

text \<open>
  \<^verbatim>\<open>str.strip()\<close> removes the white space of both ends; among the code points below
  256 these are 9-13, 28-32, 133 and 160.
\<close>

definition is_space :: "char \<Rightarrow> bool" where
  "is_space c =
     (let n = (of_char c :: nat)
      in (9 \<le> n \<and> n \<le> 13) \<or> (28 \<le> n \<and> n \<le> 32) \<or> n = 133 \<or> n = 160)"

definition strip :: "string \<Rightarrow> string" where
  "strip s = rev (dropWhile is_space (rev (dropWhile is_space s)))"

text \<open>
  \<^verbatim>\<open>str.lower()\<close> on code points below 256: the letters A-Z, and 192-222 except the
  multiplication sign 215, move up by 32.
\<close>

definition lower_char :: "char \<Rightarrow> char" where
  "lower_char c =
     (let n = (of_char c :: nat)
      in if (65 \<le> n \<and> n \<le> 90) \<or> (192 \<le> n \<and> n \<le> 222 \<and> n \<noteq> 215)
         then char_of (n + 32) else c)"

definition lower :: "string \<Rightarrow> string" where
  "lower s = map lower_char s"

text \<open>Line 218: \<^verbatim>\<open>user_input.lower() in ['quit', 'exit', 'q', ""]\<close>.\<close>

definition is_exit :: "string \<Rightarrow> bool" where
  "is_exit user_input = (lower user_input \<in> set [''quit'', ''exit'', ''q'', []])"

definition EOFError :: exn where
  "EOFError = OtherException ''EOF when reading a line''"

text \<open>
  Lines 214-228. The list holds the lines that standard input still has; \<^verbatim>\<open>input\<close>
  raises \<^verbatim>\<open>EOFError\<close> when none is left, and nothing in the loop catches it. The loop
  returns the history it held at \<^verbatim>\<open>break\<close>.
\<close>

fun conversation_loop :: "agent \<Rightarrow> string list \<Rightarrow> message list \<Rightarrow> message list io" where
  "conversation_loop agent [] history =
     io_bind (emit (Input ''You: '')) (\<lambda>_. raise EOFError)"
| "conversation_loop agent (line # rest) history =
     io_bind (emit (Input ''You: '')) (\<lambda>_.
       if is_exit (strip line) then
         io_bind (emit (Print ''Goodbye!'')) (\<lambda>_. ret history)
       else
         io_bind (emit (PrintInline ''Agent: '')) (\<lambda>_.
         io_bind (run_agent agent (strip line) history) (\<lambda>response.
         io_bind (emit (Print (content response))) (\<lambda>_.
         io_bind (emit (Print [])) (\<lambda>_.
           conversation_loop agent rest
             (history @ [HumanMessage (strip line), response]))))))"

section \<open>The \<^verbatim>\<open>__main__\<close> block\<close>

definition banner :: "string list" where
  "banner =
     [replicate 60 CHR ''='',
      ''      [0_0]      YOUR PERSONAL'',
      ''     /|___|'' @ CHR 0x5C # ''     CALENDAR AI'',
      ''    / [___] '' @ CHR 0x5C # ''    -----------'',
      ''      |___|      READY TO SCHEDULE.'',
      [],
      ''    Google Calendar x LangChain Agent'',
      replicate 60 CHR ''='',
      ''Initializing Google Calendar service...'',
      ''If this is your first time, a browser window will open for authentication.'']"

definition fatal_lines :: "string list" where
  "fatal_lines =
     [''FATAL ERROR: Could not authenticate with Google Calendar.'',
      ''Please check your credentials.json file and network connection.'']"

definition ready_lines :: "string list" where
  \<open>ready_lines =
     [''Authentication successful! Calendar service is ready.'',
      ''Create Google Calendar events.'',
      [],
      ''Some prompt examples that you can use below:'',
      ''  - Create an event titled 'Gym' for 2025-11-05 at 6 PM'',
      ''  - Create an event with description 'Discuss project updates' on 2025-11-05 from 3 PM to 4 PM'',
      ''  - Create an event at location 'Office' on 2025-11-06 from 10 AM to 11 AM'',
      [],
      ''Commands: 'quit' or 'exit' to end'',
      replicate 60 CHR ''='']\<close>

text \<open>
  How the process ends: with an exit code (\<^verbatim>\<open>exit(1)\<close>, or 0 at the end of the
  script), or with an exception that nothing caught.
\<close>

datatype process_end = ExitCode nat | Uncaught exn

text \<open>
  Lines 183-228; the module-level set-up of lines 150-167 has succeeded. \<^verbatim>\<open>exit(1)\<close>
  ends the process at once, so the conversation loop stands in the other branch only.
  The history is a local variable of the loop: the process keeps nothing of it.
\<close>

definition main :: "world \<Rightarrow> agent \<Rightarrow> string list \<Rightarrow> process_end \<times> effect list" where
  "main w agent stdin =
     (case
        io_bind (print_lines banner) (\<lambda>_.
        io_bind (get_calendar_service w) (\<lambda>service.
          case service of
            None \<Rightarrow> io_bind (print_lines fatal_lines) (\<lambda>_. ret (1 :: nat))
          | Some _ \<Rightarrow>
              io_bind (print_lines ready_lines) (\<lambda>_.
              io_bind (conversation_loop agent stdin []) (\<lambda>_. ret 0))))
      of
        (Inl e, t) \<Rightarrow> (Uncaught e, t)
      | (Inr code, t) \<Rightarrow> (ExitCode code, t))"

section \<open>Observations on results and traces\<close>

fun is_insert :: "effect \<Rightarrow> bool" where
  "is_insert (Insert _ _) = True"
| "is_insert _ = False"

fun is_refresh :: "effect \<Rightarrow> bool" where
  "is_refresh (Refresh _) = True"
| "is_refresh _ = False"

fun is_flow :: "effect \<Rightarrow> bool" where
  "is_flow RunFlow = True"
| "is_flow _ = False"

fun is_token_write :: "effect \<Rightarrow> bool" where
  "is_token_write (WriteToken _) = True"
| "is_token_write _ = False"

fun is_input :: "effect \<Rightarrow> bool" where
  "is_input (Input _) = True"
| "is_input _ = False"

fun is_agent_invoke :: "effect \<Rightarrow> bool" where
  "is_agent_invoke (AgentInvoke _ _) = True"
| "is_agent_invoke _ = False"


text \<open>The keys of the dictionary a call of the tool serialises, in their order.\<close>

definition payload_keys :: "(string \<times> json) list io \<Rightarrow> string list" where
  "payload_keys r = (case fst r of Inl _ \<Rightarrow> [] | Inr d \<Rightarrow> map fst d)"

text \<open>
  The \<^verbatim>\<open>try\<close> block of lines 131-139 reaches its \<^verbatim>\<open>return\<close>: a service was
  obtained and \<^verbatim>\<open>execute()\<close> returned a dictionary.
\<close>

definition event_created :: "world \<Rightarrow> tool_args \<Rightarrow> bool" where
  "event_created w a =
     (case fst (get_calendar_service w) of
        Inr (Some svc) \<Rightarrow>
          (case execute_insert w svc (JObject (event_body a)) of
             Inr (JObject _) \<Rightarrow> True
           | _ \<Rightarrow> False)
      | _ \<Rightarrow> False)"


text \<open>The effects of a tool call; the others belong to the terminal and the agent call.\<close>

fun from_tool :: "effect \<Rightarrow> bool" where
  "from_tool (Print _) = False"
| "from_tool (PrintInline _) = False"
| "from_tool (Input _) = False"
| "from_tool (AgentInvoke _ _) = False"
| "from_tool _ = True"



section \<open>Concrete worlds\<close>

definition gym_args :: tool_args where
  "gym_args =
     \<lparr>summary = ''Gym'', start_time = ''2025-11-05T18:00:00'',
      end_time = ''2025-11-05T19:00:00'', description = None, location = None,
      timezone = None\<rparr>"

text \<open>An event that ends an hour before it starts.\<close>

definition backwards_args :: tool_args where
  "backwards_args =
     \<lparr>summary = ''Gym'', start_time = ''2025-11-05T18:00:00'',
      end_time = ''2025-11-05T17:00:00'', description = None, location = None,
      timezone = None\<rparr>"

definition good_creds :: credentials where
  "good_creds =
     \<lparr>token = Some ''ya29.a0'', valid = True, expired = False,
      refresh_token = Some ''1//0g''\<rparr>"

text \<open>A stored token that has expired and has no refresh token.\<close>

definition stale_creds :: credentials where
  "stale_creds =
     \<lparr>token = Some ''ya29.old'', valid = False, expired = True, refresh_token = None\<rparr>"

definition gym_response :: json where
  "gym_response =
     JObject [(''summary'', JString ''Gym''),
              (''htmlLink'', JString ''https://calendar.google.com/x'')]"

text \<open>A valid stored token, and a provider that answers as the mock does.\<close>

definition mock_world :: world where
  "mock_world =
     \<lparr>path_exists = (\<lambda>p. p = TOKEN_PATH),
      from_authorized_user_file = Inr good_creds,
      refresh = (\<lambda>c. Inr c),
      run_local_server = Inl (OtherException ''could not locate runnable browser''),
      write_token = (\<lambda>_. Inr ()),
      build = (\<lambda>_. Inr ()),
      execute_insert = (\<lambda>_ _. Inr gym_response)\<rparr>"

definition forbidden_text :: string where
  "forbidden_text = ''<HttpError 403 when requesting the calendar: Forbidden>''"

definition forbidden_world :: world where
  "forbidden_world = mock_world\<lparr>execute_insert := (\<lambda>_ _. Inl (HttpError forbidden_text))\<rparr>"

definition stale_world :: world where
  "stale_world =
     mock_world\<lparr>path_exists := (\<lambda>_. True), from_authorized_user_file := Inr stale_creds\<rparr>"

definition empty_world :: world where
  "empty_world = mock_world\<lparr>path_exists := (\<lambda>_. False)\<rparr>"

definition broken_build_world :: world where
  "broken_build_world =
     mock_world\<lparr>build := (\<lambda>_. Inl (OtherException ''name: calendar  version: v3''))\<rparr>"

text \<open>An agent that answers every turn, and one whose first turn raises.\<close>

definition echo_agent :: agent where
  "echo_agent ms = Respond (ms @ [AIMessage ''Done.''])"



text \<open>The arguments of the Gym request as the runtime passes them, and two bad calls.\<close>

definition gym_raw :: raw_args where
  "gym_raw =
     [(''summary'', JString ''Gym''), (''start_time'', JString ''2025-11-05T18:00:00''),
      (''end_time'', JString ''2025-11-05T19:00:00'')]"

definition no_summary_raw :: raw_args where
  "no_summary_raw =
     [(''start_time'', JString ''2025-11-05T18:00:00''),
      (''end_time'', JString ''2025-11-05T19:00:00'')]"

definition null_description_raw :: raw_args where
  "null_description_raw = gym_raw @ [(''description'', JNull)]"

text \<open>
  An agent that calls the tool once, in the world \<open>w\<close>, and reports: the tool's text
  goes into the messages, an exception of the tool ends the run.
\<close>

definition booking_agent :: "world \<Rightarrow> agent" where
  "booking_agent w ms =
     UseTool w gym_raw
       (\<lambda>r. case r of
          Returned s \<Rightarrow> Respond (ms @ [OtherMessage s, AIMessage ''Done.''])
        | Raised e \<Rightarrow> Fail e
        | ValidationError _ \<Rightarrow> Fail (OtherException ''1 validation error''))"

definition time_range_text :: string where
  "time_range_text =
     ''<HttpError 400 when requesting the calendar: The specified time range is empty.>''"

text \<open>A provider that rejects the request, as it does for an event that ends too early.\<close>

definition rejecting_world :: world where
  "rejecting_world = mock_world\<lparr>execute_insert := (\<lambda>_ _. Inl (HttpError time_range_text))\<rparr>"

text \<open>A stored token that fails to parse, and a refresh that the provider refuses.\<close>

definition malformed_world :: world where
  "malformed_world =
     mock_world\<lparr>path_exists := (\<lambda>_. True),
       from_authorized_user_file := Inl (OtherException ''Expecting value: line 1 column 1 (char 0)''),
       run_local_server := Inr good_creds\<rparr>"

definition expired_creds :: credentials where
  "expired_creds =
     \<lparr>token = Some ''ya29.old'', valid = False, expired = True,
      refresh_token = Some ''1//0g''\<rparr>"

definition refused_world :: world where
  "refused_world =
     mock_world\<lparr>path_exists := (\<lambda>_. True),
       from_authorized_user_file := Inr expired_creds,
       refresh := (\<lambda>_. Inl (OtherException ''invalid_grant: Token has been expired or revoked.'')),
       run_local_server := Inr good_creds\<rparr>"

section \<open>The monad: result and trace of each combinator\<close>

lemma fst_ret: "fst (ret x) = Inr x" and snd_ret: "snd (ret x) = []"
  by (simp_all add: ret_def)

lemma fst_raise: "fst (raise e) = Inl e" and snd_raise: "snd (raise e) = []"
  by (simp_all add: raise_def)

lemma fst_emit: "fst (emit ef) = Inr ()" and snd_emit: "snd (emit ef) = [ef]"
  by (simp_all add: emit_def)

lemma fst_call: "fst (call ef r) = r" and snd_call: "snd (call ef r) = [ef]"
  by (simp_all add: call_def)

lemma fst_print_lines: "fst (print_lines ls) = Inr ()"
  and snd_print_lines: "snd (print_lines ls) = map Print ls"
  by (simp_all add: print_lines_def)

lemma fst_io_bind:
  "fst (io_bind m f) = (case fst m of Inl e \<Rightarrow> Inl e | Inr x \<Rightarrow> fst (f x))"
  by (cases m) (simp add: io_bind_def split: sum.splits prod.splits)

lemma snd_io_bind:
  "snd (io_bind m f) = (case fst m of Inl e \<Rightarrow> snd m | Inr x \<Rightarrow> snd m @ snd (f x))"
  by (cases m) (simp add: io_bind_def split: sum.splits prod.splits)

lemma fst_try_except:
  "fst (try_except m h) = (case fst m of Inl e \<Rightarrow> fst (h e) | Inr x \<Rightarrow> Inr x)"
  by (cases m) (simp add: try_except_def split: sum.splits prod.splits)

lemma snd_try_except:
  "snd (try_except m h) = (case fst m of Inl e \<Rightarrow> snd m @ snd (h e) | Inr x \<Rightarrow> snd m)"
  by (cases m) (simp add: try_except_def split: sum.splits prod.splits)

lemma fst_io_map: "fst (io_map f m) = map_sum id f (fst m)"
  by (simp add: io_map_def fst_io_bind fst_ret split: sum.splits)

lemma snd_io_map: "snd (io_map f m) = snd m"
  by (simp add: io_map_def snd_io_bind snd_ret split: sum.splits)

lemmas io_simps = fst_ret snd_ret fst_raise snd_raise fst_emit snd_emit fst_call snd_call
  fst_print_lines snd_print_lines fst_io_bind snd_io_bind fst_try_except snd_try_except
  fst_io_map snd_io_map

section \<open>Session acquisition never raises and repeats no request\<close>

lemma gcs_load_returns: "\<exists>r. fst (gcs_load w) = Inr r"
  by (simp add: gcs_load_def io_simps split: sum.splits)

lemma gcs_refresh_returns: "\<exists>r. fst (gcs_refresh w c) = Inr r"
  by (simp add: gcs_refresh_def io_simps split: sum.splits option.splits)

lemma gcs_login_returns: "\<exists>r. fst (gcs_login w c) = Inr r"
  by (simp add: gcs_login_def io_simps split: sum.splits option.splits)

lemma gcs_save_returns: "fst (gcs_save w c) = Inr ()"
  by (simp add: gcs_save_def io_simps split: sum.splits option.splits)

lemma gcs_build_returns: "\<exists>r. fst (gcs_build w c) = Inr r"
  by (simp add: gcs_build_def io_simps split: sum.splits option.splits)

lemma gcs_renew_returns: "\<exists>r. fst (gcs_renew w c) = Inr r"
proof -
  obtain c1 where c1: "fst (gcs_refresh w c) = Inr c1"
    using gcs_refresh_returns by blast
  obtain c2 where c2: "fst (gcs_login w c1) = Inr c2"
    using gcs_login_returns by blast
  show ?thesis
  proof (cases c2)
    case None
    with c1 c2 show ?thesis by (simp add: gcs_renew_def io_simps)
  next
    case (Some c3)
    with c1 c2 gcs_build_returns [of w c3] show ?thesis
      by (simp add: gcs_renew_def io_simps gcs_save_returns)
  qed
qed

lemma get_calendar_service_returns: "\<exists>r. fst (get_calendar_service w) = Inr r"
proof -
  obtain c where c: "fst (gcs_load w) = Inr c"
    using gcs_load_returns by blast
  show ?thesis
    using c gcs_renew_returns [of w c] gcs_build_returns [of w]
    by (cases c) (auto simp add: get_calendar_service_def io_simps)
qed

lemma gcs_load_quiet:
  "filter is_insert (snd (gcs_load w)) = []"
  "filter is_refresh (snd (gcs_load w)) = []"
  "filter is_flow (snd (gcs_load w)) = []"
  by (simp_all add: gcs_load_def io_simps split: sum.splits)

lemma gcs_refresh_effects:
  "filter is_insert (snd (gcs_refresh w c)) = []"
  "length (filter is_refresh (snd (gcs_refresh w c))) \<le> Suc 0"
  "filter is_flow (snd (gcs_refresh w c)) = []"
  by (simp_all add: gcs_refresh_def io_simps split: sum.splits option.splits)

lemma gcs_login_effects:
  "filter is_insert (snd (gcs_login w c)) = []"
  "filter is_refresh (snd (gcs_login w c)) = []"
  "length (filter is_flow (snd (gcs_login w c))) \<le> Suc 0"
  by (simp_all add: gcs_login_def io_simps split: sum.splits option.splits)

lemma gcs_save_quiet:
  "filter is_insert (snd (gcs_save w c)) = []"
  "filter is_refresh (snd (gcs_save w c)) = []"
  "filter is_flow (snd (gcs_save w c)) = []"
  by (simp_all add: gcs_save_def io_simps split: sum.splits)

lemma gcs_build_quiet:
  "filter is_insert (snd (gcs_build w c)) = []"
  "filter is_refresh (snd (gcs_build w c)) = []"
  "filter is_flow (snd (gcs_build w c)) = []"
  by (simp_all add: gcs_build_def io_simps split: sum.splits)

lemma gcs_renew_effects:
  "filter is_insert (snd (gcs_renew w c)) = []"
  "length (filter is_refresh (snd (gcs_renew w c))) \<le> Suc 0"
  "length (filter is_flow (snd (gcs_renew w c))) \<le> Suc 0"
  by (simp_all add: gcs_renew_def io_simps gcs_refresh_effects gcs_login_effects
      gcs_save_quiet gcs_build_quiet split: sum.splits option.splits)

lemma get_calendar_service_effects:
  "filter is_insert (snd (get_calendar_service w)) = []"
  "length (filter is_refresh (snd (get_calendar_service w))) \<le> Suc 0"
  "length (filter is_flow (snd (get_calendar_service w))) \<le> Suc 0"
  by (simp_all add: get_calendar_service_def io_simps gcs_load_quiet gcs_renew_effects
      gcs_build_quiet split: sum.splits option.splits)

section \<open>The tool, case by case\<close>

lemma tool_payload_no_session:
  assumes "fst (get_calendar_service w) = Inr None"
  shows "tool_payload w a =
    (Inr [(''error'', JString ''Failed to get Google Calendar service. Check authentication.'')],
     snd (get_calendar_service w))"
  using assms by (simp add: tool_payload_def io_simps prod_eq_iff)

lemma tool_payload_http_error:
  assumes "fst (get_calendar_service w) = Inr (Some svc)"
    and "execute_insert w svc (JObject (event_body a)) = Inl (HttpError m)"
  shows "tool_payload w a =
    (Inr [(''error'', JString m)],
     snd (get_calendar_service w)
       @ [Insert ''primary'' (JObject (event_body a)), Log ERROR (''An error occurred: '' @ m)])"
  using assms by (simp add: tool_payload_def io_simps prod_eq_iff)

lemma tool_payload_other_error:
  assumes "fst (get_calendar_service w) = Inr (Some svc)"
    and "execute_insert w svc (JObject (event_body a)) = Inl (OtherException m)"
  shows "tool_payload w a =
    (Inr [(''error'', JString (''An unexpected error occurred: '' @ m))],
     snd (get_calendar_service w)
       @ [Insert ''primary'' (JObject (event_body a)),
          Log ERROR (''An unexpected error occurred: '' @ m)])"
  using assms by (simp add: tool_payload_def io_simps prod_eq_iff)

lemma tool_payload_created:
  assumes "fst (get_calendar_service w) = Inr (Some svc)"
    and "execute_insert w svc (JObject (event_body a)) = Inr (JObject kvs)"
  shows "tool_payload w a =
    (Inr [(''status'', JString ''success''),
          (''summary'', case map_of kvs ''summary'' of None \<Rightarrow> JNull | Some v \<Rightarrow> v),
          (''htmlLink'', case map_of kvs ''htmlLink'' of None \<Rightarrow> JNull | Some v \<Rightarrow> v)],
     snd (get_calendar_service w)
       @ [Insert ''primary'' (JObject (event_body a)),
          LogEventCreated (case map_of kvs ''summary'' of None \<Rightarrow> JNull | Some v \<Rightarrow> v)])"
  using assms by (simp add: tool_payload_def io_simps prod_eq_iff)

lemma tool_payload_not_a_dict:
  assumes "fst (get_calendar_service w) = Inr (Some svc)"
    and "execute_insert w svc (JObject (event_body a)) = Inr j"
    and "\<forall>kvs. j \<noteq> JObject kvs"
  shows "tool_payload w a =
    (Inr [(''error'', JString (''An unexpected error occurred: '' @ attribute_error j))],
     snd (get_calendar_service w)
       @ [Insert ''primary'' (JObject (event_body a)),
          Log ERROR (''An unexpected error occurred: '' @ attribute_error j)])"
  using assms by (cases j) (simp_all add: tool_payload_def io_simps prod_eq_iff)

text \<open>
  Whatever the world does, the tool returns a dictionary whose keys depend on
  \<open>event_created\<close> only, after the trace of the session acquisition and at most one
  request to the provider.
\<close>

lemma tool_payload_shape:
  "\<exists>d extra.
     tool_payload w a = (Inr d, snd (get_calendar_service w) @ extra) \<and>
     map fst d = (if event_created w a then [''status'', ''summary'', ''htmlLink'']
                  else [''error'']) \<and>
     (event_created w a \<longrightarrow> map_of d ''status'' = Some (JString ''success'')) \<and>
     length (filter is_insert extra) \<le> Suc 0 \<and>
     filter is_refresh extra = [] \<and> filter is_flow extra = [] \<and>
     list_all from_tool extra"
proof -
  obtain r where r: "fst (get_calendar_service w) = Inr r"
    using get_calendar_service_returns by blast
  show ?thesis
  proof (cases r)
    case None
    with r tool_payload_no_session [of w a] show ?thesis
      by (simp add: event_created_def)
  next
    case (Some svc)
    with r have s: "fst (get_calendar_service w) = Inr (Some svc)" by simp
    show ?thesis
    proof (cases "execute_insert w svc (JObject (event_body a))")
      case (Inl e)
      show ?thesis
      proof (cases e)
        case (HttpError m)
        with Inl s tool_payload_http_error [of w svc a m] show ?thesis
          by (simp add: event_created_def)
      next
        case (OtherException m)
        with Inl s tool_payload_other_error [of w svc a m] show ?thesis
          by (simp add: event_created_def)
      qed
    next
      case (Inr j)
      show ?thesis
      proof (cases "\<exists>kvs. j = JObject kvs")
        case True
        then obtain kvs where "j = JObject kvs" by blast
        with Inr s tool_payload_created [of w svc a kvs] show ?thesis
          by (simp add: event_created_def)
      next
        case False
        with Inr s tool_payload_not_a_dict [of w svc a j] show ?thesis
          by (cases j) (simp_all add: event_created_def)
      qed
    qed
  qed
qed

section \<open>The tool adapter\<close>





text \<open>The body of the tool, on arguments of the right types, returns and repeats nothing.\<close>

lemma tool_body_returns_json:
  "\<exists>d. fst (create_google_calendar_event w a) = Inr (json_dumps (JObject d)) \<and>
       length (filter is_insert (snd (create_google_calendar_event w a))) \<le> 1 \<and>
       length (filter is_refresh (snd (create_google_calendar_event w a))) \<le> 1 \<and>
       length (filter is_flow (snd (create_google_calendar_event w a))) \<le> 1"
proof -
  obtain d extra where
    p: "tool_payload w a = (Inr d, snd (get_calendar_service w) @ extra)"
    and i: "length (filter is_insert extra) \<le> Suc 0"
    and r: "filter is_refresh extra = []"
    and f: "filter is_flow extra = []"
    using tool_payload_shape [of w a] by blast
  have "fst (create_google_calendar_event w a) = Inr (json_dumps (JObject d))"
    using p by (simp add: create_google_calendar_event_def fst_io_map)
  moreover have "snd (create_google_calendar_event w a) = snd (get_calendar_service w) @ extra"
    using p by (simp add: create_google_calendar_event_def snd_io_map)
  ultimately show ?thesis
    using i r f get_calendar_service_effects [of w] by auto
qed

lemma invoke_tool_invalid:
  assumes "validate_args raw = Inl errs"
  shows "invoke_tool w raw = (ValidationError errs, [])"
  using assms by (simp add: invoke_tool_def)

lemma invoke_tool_valid:
  assumes "validate_args raw = Inr a"
    and "fst (create_google_calendar_event w a) = Inr s"
  shows "invoke_tool w raw = (Returned s, snd (create_google_calendar_event w a))"
  using assms
  by (cases "create_google_calendar_event w a") (simp add: invoke_tool_def)


text \<open>
  C1, as the code has it. A call of the tool whose arguments pass the validation of the
  wrapper (the three required arguments are there and every argument given is a string)
  returns the serialisation of a JSON object and raises nothing, in any world: each
  external call may return, raise \<open>HttpError\<close> or raise any other exception. Nothing
  is retried: the trace holds at most one insert request, at most one token refresh and
  at most one authorization flow. A call whose arguments fail the validation raises
  \<open>ValidationError\<close> to its caller before the body runs, with no effect at all. The
  body itself, for every value of its typed arguments, returns such a string.
\<close>

theorem tool_always_returns_json:
  "(\<forall>a. validate_args raw = Inr a \<longrightarrow>
      (\<exists>d. fst (invoke_tool w raw) = Returned (json_dumps (JObject d))) \<and>
      snd (invoke_tool w raw) = snd (create_google_calendar_event w a) \<and>
      length (filter is_insert (snd (invoke_tool w raw))) \<le> 1 \<and>
      length (filter is_refresh (snd (invoke_tool w raw))) \<le> 1 \<and>
      length (filter is_flow (snd (invoke_tool w raw))) \<le> 1) \<and>
   (\<forall>errs. validate_args raw = Inl errs \<longrightarrow> invoke_tool w raw = (ValidationError errs, [])) \<and>
   (\<exists>d. fst (create_google_calendar_event w b) = Inr (json_dumps (JObject d)) \<and>
      length (filter is_insert (snd (create_google_calendar_event w b))) \<le> 1 \<and>
      length (filter is_refresh (snd (create_google_calendar_event w b))) \<le> 1 \<and>
      length (filter is_flow (snd (create_google_calendar_event w b))) \<le> 1)"
proof -
  have valid: "(\<exists>d. fst (invoke_tool w raw) = Returned (json_dumps (JObject d))) \<and>
      snd (invoke_tool w raw) = snd (create_google_calendar_event w a) \<and>
      length (filter is_insert (snd (invoke_tool w raw))) \<le> 1 \<and>
      length (filter is_refresh (snd (invoke_tool w raw))) \<le> 1 \<and>
      length (filter is_flow (snd (invoke_tool w raw))) \<le> 1"
    if v: "validate_args raw = Inr a" for a
  proof -
    obtain d where
      d: "fst (create_google_calendar_event w a) = Inr (json_dumps (JObject d))"
      and n: "length (filter is_insert (snd (create_google_calendar_event w a))) \<le> 1"
        "length (filter is_refresh (snd (create_google_calendar_event w a))) \<le> 1"
        "length (filter is_flow (snd (create_google_calendar_event w a))) \<le> 1"
      using tool_body_returns_json [of w a] by blast
    have e: "invoke_tool w raw =
        (Returned (json_dumps (JObject d)), snd (create_google_calendar_event w a))"
      by (rule invoke_tool_valid [OF v d])
    have "\<exists>d. fst (invoke_tool w raw) = Returned (json_dumps (JObject d))"
      unfolding e by (rule exI [of _ d]) simp
    moreover have "snd (invoke_tool w raw) = snd (create_google_calendar_event w a)"
      unfolding e by simp
    ultimately show ?thesis
      using n by (simp del: json_dumps.simps)
  qed
  show ?thesis
    using valid invoke_tool_invalid [of raw _ w] tool_body_returns_json [of w b] by blast
qed

theorem tool_always_returns_json_witness:
  \<open>validate_args gym_raw = Inr gym_args \<and>
   fst (invoke_tool mock_world gym_raw) =
     Returned ''{"status": "success", "summary": "Gym", "htmlLink": "https://calendar.google.com/x"}'' \<and>
   snd (invoke_tool mock_world gym_raw) = snd (create_google_calendar_event mock_world gym_args) \<and>
   length (filter is_insert (snd (invoke_tool mock_world gym_raw))) \<le> 1\<close>
proof -
  have v: "validate_args gym_raw = Inr gym_args"
    by code_simp
  have r: \<open>fst (invoke_tool mock_world gym_raw) =
     Returned ''{"status": "success", "summary": "Gym", "htmlLink": "https://calendar.google.com/x"}''\<close>
    by code_simp
  show ?thesis
    using v r tool_always_returns_json [of gym_raw mock_world gym_args] by simp
qed

text \<open>
  C1 as stated fails: a call without \<open>summary\<close>, and a call with an explicit null for
  \<open>description\<close>, raise \<open>ValidationError\<close> to the caller; no JSON string comes back.
\<close>

theorem tool_always_returns_json_counterexample:
  "invoke_tool mock_world no_summary_raw = (ValidationError [Missing ''summary''], []) \<and>
   invoke_tool mock_world null_description_raw =
     (ValidationError [NotAString ''description''], [])"
  by code_simp

text \<open>
  C2, as the code has it. The serialised result is a flat object whose keys are exactly
  \<open>status\<close>, \<open>summary\<close>, \<open>htmlLink\<close> (with \<open>status\<close> equal to \<open>success\<close>) when the event
  was created, and exactly \<open>error\<close> on every failure.
\<close>

theorem tool_payload_keys:
  "\<exists>d. fst (create_google_calendar_event w a) = Inr (json_dumps (JObject d)) \<and>
       fst (tool_payload w a) = Inr d \<and>
       (if event_created w a
        then map fst d = [''status'', ''summary'', ''htmlLink''] \<and>
             map_of d ''status'' = Some (JString ''success'')
        else map fst d = [''error''])"
proof -
  obtain d extra where
    p: "tool_payload w a = (Inr d, snd (get_calendar_service w) @ extra)"
    and k: "map fst d = (if event_created w a then [''status'', ''summary'', ''htmlLink'']
                         else [''error''])"
    and s: "event_created w a \<longrightarrow> map_of d ''status'' = Some (JString ''success'')"
    using tool_payload_shape [of w a] by blast
  have "fst (create_google_calendar_event w a) = Inr (json_dumps (JObject d))"
    using p by (simp add: create_google_calendar_event_def fst_io_map)
  with p k s show ?thesis by auto
qed

text \<open>
  C2 as stated fails: for the Gym request against the mock provider the keys are
  \<open>status\<close>, \<open>summary\<close>, \<open>htmlLink\<close> and not \<open>status\<close>, \<open>summary\<close>, \<open>link\<close>; when the
  provider answers 403 the only key is \<open>error\<close>, and there is no key \<open>message\<close>.
\<close>

theorem tool_payload_keys_counterexample:
  "event_created mock_world gym_args \<and>
   payload_keys (tool_payload mock_world gym_args) = [''status'', ''summary'', ''htmlLink''] \<and>
   set (payload_keys (tool_payload mock_world gym_args)) \<noteq> {''status'', ''summary'', ''link''} \<and>
   \<not> event_created forbidden_world gym_args \<and>
   payload_keys (tool_payload forbidden_world gym_args) = [''error''] \<and>
   set (payload_keys (tool_payload forbidden_world gym_args)) \<noteq> {''error'', ''message''}"
  by code_simp

text \<open>
  C3, as the code has it. For the Gym request, when a session is obtained and the
  provider answers with summary \<open>Gym\<close> and the link, the output is the object with the
  keys \<open>status\<close>, \<open>summary\<close>, \<open>htmlLink\<close> written with the separators of \<open>json.dumps\<close>:
  a space follows every comma and every colon.
\<close>

theorem gym_output:
  assumes "fst (get_calendar_service w) = Inr (Some svc)"
    and "execute_insert w svc (JObject (event_body gym_args)) = Inr gym_response"
  shows \<open>fst (create_google_calendar_event w gym_args) =
    Inr ''{"status": "success", "summary": "Gym", "htmlLink": "https://calendar.google.com/x"}''\<close>
proof -
  have "fst (tool_payload w gym_args) =
    Inr [(''status'', JString ''success''), (''summary'', JString ''Gym''),
         (''htmlLink'', JString ''https://calendar.google.com/x'')]"
    using assms tool_payload_created [of w svc gym_args]
    by (simp add: gym_response_def)
  then show ?thesis
    by (simp add: create_google_calendar_event_def fst_io_map json_quote_def escape_char_def)
qed

theorem gym_output_witness:
  \<open>fst (get_calendar_service mock_world) = Inr (Some (Service good_creds)) \<and>
   execute_insert mock_world (Service good_creds) (JObject (event_body gym_args)) = Inr gym_response \<and>
   fst (create_google_calendar_event mock_world gym_args) =
    Inr ''{"status": "success", "summary": "Gym", "htmlLink": "https://calendar.google.com/x"}''\<close>
proof -
  have s: "fst (get_calendar_service mock_world) = Inr (Some (Service good_creds))"
    by code_simp
  have e: "execute_insert mock_world (Service good_creds) (JObject (event_body gym_args))
      = Inr gym_response"
    by (simp add: mock_world_def)
  show ?thesis
    using s e gym_output [OF s e] by simp
qed

text \<open>
  C3 as stated fails: the output is not the string without spaces.
\<close>

theorem gym_output_counterexample:
  \<open>fst (create_google_calendar_event mock_world gym_args) \<noteq>
    Inr ''{"status":"success","summary":"Gym","htmlLink":"https://calendar.google.com/x"}''\<close>
  by code_simp

lemma tool_payload_inserts:
  "filter is_insert (snd (tool_payload w a)) =
     (case fst (get_calendar_service w) of
        Inr (Some svc) \<Rightarrow> [Insert ''primary'' (JObject (event_body a))]
      | _ \<Rightarrow> [])"
proof -
  obtain r where r: "fst (get_calendar_service w) = Inr r"
    using get_calendar_service_returns by blast
  note q = get_calendar_service_effects(1) [of w]
  show ?thesis
  proof (cases r)
    case None
    with r q tool_payload_no_session [of w a] show ?thesis by simp
  next
    case (Some svc)
    with r have s: "fst (get_calendar_service w) = Inr (Some svc)" by simp
    show ?thesis
    proof (cases "execute_insert w svc (JObject (event_body a))")
      case (Inl e)
      show ?thesis
      proof (cases e)
        case (HttpError m)
        with Inl s q tool_payload_http_error [of w svc a m] show ?thesis by simp
      next
        case (OtherException m)
        with Inl s q tool_payload_other_error [of w svc a m] show ?thesis by simp
      qed
    next
      case (Inr j)
      show ?thesis
      proof (cases "\<exists>kvs. j = JObject kvs")
        case True
        then obtain kvs where "j = JObject kvs" by blast
        with Inr s q tool_payload_created [of w svc a kvs] show ?thesis by simp
      next
        case False
        with Inr s q tool_payload_not_a_dict [of w svc a j] show ?thesis by simp
      qed
    qed
  qed
qed

lemma tool_http_error_output:
  assumes "fst (get_calendar_service w) = Inr (Some svc)"
    and "execute_insert w svc (JObject (event_body a)) = Inl (HttpError m)"
  shows "fst (create_google_calendar_event w a) = Inr (json_dumps (JObject [(''error'', JString m)]))"
  using tool_payload_http_error [OF assms]
  by (simp add: create_google_calendar_event_def fst_io_map)

lemma event_body_times:
  "map_of (event_body a) ''start'' =
     Some (JObject [(''dateTime'', JString (start_time a)),
                    (''timeZone'', JString (timezone_of a))])"
  "map_of (event_body a) ''end'' =
     Some (JObject [(''dateTime'', JString (end_time a)),
                    (''timeZone'', JString (timezone_of a))])"
  by (simp_all add: event_body_def)

section \<open>Requests are forwarded as given\<close>

text \<open>
  C4, as the code has it. The tool compares no times: for every event, so for every
  event whose end is before its start, a call that has obtained a session sends exactly
  one insert request, whose body holds the given \<open>start_time\<close> and \<open>end_time\<close>
  unchanged, and a call that has obtained none sends no request and returns the error
  of the failed authentication. A rejection by the provider (\<open>HttpError\<close>) comes back
  as the result \<open>{"error": message}\<close>; the tool returns and raises nothing.
\<close>

theorem backwards_event_forwarded:
  "filter is_insert (snd (create_google_calendar_event w a)) =
     (case fst (get_calendar_service w) of
        Inr (Some svc) \<Rightarrow> [Insert ''primary'' (JObject (event_body a))]
      | _ \<Rightarrow> []) \<and>
   map_of (event_body a) ''start'' =
     Some (JObject [(''dateTime'', JString (start_time a)),
                    (''timeZone'', JString (timezone_of a))]) \<and>
   map_of (event_body a) ''end'' =
     Some (JObject [(''dateTime'', JString (end_time a)),
                    (''timeZone'', JString (timezone_of a))]) \<and>
   (\<forall>svc m. fst (get_calendar_service w) = Inr (Some svc) \<and>
      execute_insert w svc (JObject (event_body a)) = Inl (HttpError m) \<longrightarrow>
      fst (create_google_calendar_event w a) =
        Inr (json_dumps (JObject [(''error'', JString m)]))) \<and>
   (fst (get_calendar_service w) = Inr None \<longrightarrow>
      fst (create_google_calendar_event w a) =
        Inr (json_dumps (JObject
          [(''error'',
            JString ''Failed to get Google Calendar service. Check authentication.'')]))) \<and>
   (\<exists>s. fst (create_google_calendar_event w a) = Inr s)"
proof -
  have "filter is_insert (snd (create_google_calendar_event w a)) =
     (case fst (get_calendar_service w) of
        Inr (Some svc) \<Rightarrow> [Insert ''primary'' (JObject (event_body a))]
      | _ \<Rightarrow> [])"
    using tool_payload_inserts [of w a]
    by (simp add: create_google_calendar_event_def snd_io_map)
  moreover obtain d extra where
    "tool_payload w a = (Inr d, snd (get_calendar_service w) @ extra)"
    using tool_payload_shape [of w a] by blast
  then have "\<exists>s. fst (create_google_calendar_event w a) = Inr s"
    by (simp add: create_google_calendar_event_def fst_io_map)
  moreover have "fst (create_google_calendar_event w a) =
        Inr (json_dumps (JObject
          [(''error'',
            JString ''Failed to get Google Calendar service. Check authentication.'')]))"
    if "fst (get_calendar_service w) = Inr None"
    using tool_payload_no_session [OF that, of a]
    by (simp add: create_google_calendar_event_def fst_io_map)
  ultimately show ?thesis
    using tool_http_error_output [of w _ a] event_body_times [of a] by blast
qed

theorem backwards_event_forwarded_witness:
  "filter is_insert (snd (create_google_calendar_event rejecting_world backwards_args)) =
     [Insert ''primary'' (JObject
        [(''summary'', JString ''Gym''), (''location'', JNull), (''description'', JNull),
         (''start'', JObject [(''dateTime'', JString ''2025-11-05T18:00:00''),
                              (''timeZone'', JString ''Asia/Singapore'')]),
         (''end'', JObject [(''dateTime'', JString ''2025-11-05T17:00:00''),
                            (''timeZone'', JString ''Asia/Singapore'')])])] \<and>
   fst (create_google_calendar_event rejecting_world backwards_args) =
     Inr (json_dumps (JObject [(''error'', JString time_range_text)])) \<and>
   fst (create_google_calendar_event empty_world backwards_args) =
     Inr (json_dumps (JObject
       [(''error'', JString ''Failed to get Google Calendar service. Check authentication.'')]))"
proof -
  have s: "fst (get_calendar_service rejecting_world) = Inr (Some (Service good_creds))"
    by code_simp
  have e: "execute_insert rejecting_world (Service good_creds)
      (JObject (event_body backwards_args)) = Inl (HttpError time_range_text)"
    by (simp add: rejecting_world_def)
  have n: "fst (get_calendar_service empty_world) = Inr None"
    by code_simp
  have b: "event_body backwards_args =
      [(''summary'', JString ''Gym''), (''location'', JNull), (''description'', JNull),
       (''start'', JObject [(''dateTime'', JString ''2025-11-05T18:00:00''),
                            (''timeZone'', JString ''Asia/Singapore'')]),
       (''end'', JObject [(''dateTime'', JString ''2025-11-05T17:00:00''),
                          (''timeZone'', JString ''Asia/Singapore'')])]"
    by (simp add: event_body_def backwards_args_def timezone_of_def)
  from backwards_event_forwarded [of rejecting_world backwards_args]
  have "filter is_insert (snd (create_google_calendar_event rejecting_world backwards_args)) =
      [Insert ''primary'' (JObject (event_body backwards_args))]"
    and "fst (create_google_calendar_event rejecting_world backwards_args) =
      Inr (json_dumps (JObject [(''error'', JString time_range_text)]))"
    using s e by simp_all
  moreover from backwards_event_forwarded [of empty_world backwards_args]
  have "fst (create_google_calendar_event empty_world backwards_args) =
     Inr (json_dumps (JObject
       [(''error'', JString ''Failed to get Google Calendar service. Check authentication.'')]))"
    using n by blast
  ultimately show ?thesis
    using b by simp
qed

text \<open>
  C4 as stated fails: with neither \<open>token.json\<close> nor \<open>credentials.json\<close> the event
  that ends before it starts is not forwarded: no insert request is sent.
\<close>

theorem backwards_event_counterexample:
  "start_time backwards_args = ''2025-11-05T18:00:00'' \<and>
   end_time backwards_args = ''2025-11-05T17:00:00'' \<and>
   filter is_insert (snd (create_google_calendar_event empty_world backwards_args)) = [] \<and>
   fst (create_google_calendar_event empty_world backwards_args) =
     Inr (json_dumps (JObject
       [(''error'', JString ''Failed to get Google Calendar service. Check authentication.'')]))"
  by code_simp

text \<open>
  C10. Whenever the tool sends a request (it does so exactly when a session was
  obtained), the body is the dictionary \<open>event\<close>: its keys are \<open>summary\<close>, \<open>location\<close>,
  \<open>description\<close>, \<open>start\<close> and \<open>end\<close>; a \<open>location\<close> or \<open>description\<close> that was not
  supplied is there with the value null; \<open>start\<close> and \<open>end\<close> carry the same time zone,
  the one argument \<open>timezone\<close> (\<open>Asia/Singapore\<close> when it was not passed).
\<close>

theorem request_body_keys:
  "filter is_insert (snd (create_google_calendar_event w a)) =
     (case fst (get_calendar_service w) of
        Inr (Some svc) \<Rightarrow> [Insert ''primary'' (JObject (event_body a))]
      | _ \<Rightarrow> []) \<and>
   map fst (event_body a) = [''summary'', ''location'', ''description'', ''start'', ''end''] \<and>
   map_of (event_body a) ''summary'' = Some (JString (summary a)) \<and>
   map_of (event_body a) ''location'' =
     Some (case location a of None \<Rightarrow> JNull | Some l \<Rightarrow> JString l) \<and>
   map_of (event_body a) ''description'' =
     Some (case description a of None \<Rightarrow> JNull | Some l \<Rightarrow> JString l) \<and>
   map_of (event_body a) ''start'' =
     Some (JObject [(''dateTime'', JString (start_time a)),
                    (''timeZone'', JString (timezone_of a))]) \<and>
   map_of (event_body a) ''end'' =
     Some (JObject [(''dateTime'', JString (end_time a)),
                    (''timeZone'', JString (timezone_of a))]) \<and>
   timezone_of a = (case timezone a of None \<Rightarrow> ''Asia/Singapore'' | Some z \<Rightarrow> z)"
proof -
  have "filter is_insert (snd (create_google_calendar_event w a)) =
     (case fst (get_calendar_service w) of
        Inr (Some svc) \<Rightarrow> [Insert ''primary'' (JObject (event_body a))]
      | _ \<Rightarrow> [])"
    using tool_payload_inserts [of w a]
    by (simp add: create_google_calendar_event_def snd_io_map)
  moreover have "map fst (event_body a) =
      [''summary'', ''location'', ''description'', ''start'', ''end'']"
    by (simp add: event_body_def)
  moreover have "map_of (event_body a) ''summary'' = Some (JString (summary a))"
    by (simp add: event_body_def)
  moreover have "map_of (event_body a) ''location'' =
      Some (case location a of None \<Rightarrow> JNull | Some l \<Rightarrow> JString l)"
    by (cases "location a") (simp_all add: event_body_def)
  moreover have "map_of (event_body a) ''description'' =
      Some (case description a of None \<Rightarrow> JNull | Some l \<Rightarrow> JString l)"
    by (cases "description a") (simp_all add: event_body_def)
  ultimately show ?thesis
    using event_body_times [of a] by (simp add: timezone_of_def)
qed

section \<open>Session acquisition\<close>

lemmas gcs_defs = get_calendar_service_def gcs_renew_def gcs_load_def gcs_refresh_def
  gcs_login_def gcs_save_def gcs_build_def

lemma gcs_build_eq:
  "gcs_build w c =
     (case build w c of
        Inr _ \<Rightarrow> (Inr (Some (Service c)), [Build c])
      | Inl e \<Rightarrow>
          (Inr None,
           [Build c, Log ERROR (''Error building Google Calendar service: '' @ exn_str e)]))"
  by (simp add: gcs_build_def io_simps prod_eq_iff split: sum.splits)

text \<open>
  C5. When neither \<open>token.json\<close> nor \<open>credentials.json\<close> exists, session acquisition
  logs the missing client-secret file and returns \<open>None\<close>, and the process prints the
  fatal message and exits with code 1: its trace holds no \<open>Input\<close> and no
  \<open>AgentInvoke\<close>, so the conversation loop is never entered.
\<close>

theorem missing_secret_exits:
  assumes "\<not> path_exists w TOKEN_PATH" and "\<not> path_exists w CREDENTIALS_PATH"
  shows "get_calendar_service w =
           (Inr None,
            [PathExists ''token.json'', PathExists ''credentials.json'',
             Log ERROR ''Missing credentials file: credentials.json'',
             Log ERROR
               ''Please download it from the Google Cloud Console and save it in this directory.'']) \<and>
         main w agent stdin =
           (ExitCode 1, map Print banner @ snd (get_calendar_service w) @ map Print fatal_lines) \<and>
         filter is_input (snd (main w agent stdin)) = [] \<and>
         filter is_agent_invoke (snd (main w agent stdin)) = []"
proof -
  have g: "get_calendar_service w =
           (Inr None,
            [PathExists ''token.json'', PathExists ''credentials.json'',
             Log ERROR ''Missing credentials file: credentials.json'',
             Log ERROR
               ''Please download it from the Google Cloud Console and save it in this directory.''])"
    using assms
    by (simp add: gcs_defs io_simps prod_eq_iff TOKEN_PATH_def CREDENTIALS_PATH_def)
  have m: "main w agent stdin =
      (ExitCode 1, map Print banner @ snd (get_calendar_service w) @ map Print fatal_lines)"
    using g by (simp add: main_def io_bind_def print_lines_def ret_def)
  have "filter is_input (snd (main w agent stdin)) = []"
    and "filter is_agent_invoke (snd (main w agent stdin)) = []"
    unfolding m using g by (simp_all add: filter_empty_conv image_iff)
  with g m show ?thesis by simp
qed

theorem missing_secret_exits_witness:
  "\<not> path_exists empty_world TOKEN_PATH \<and> \<not> path_exists empty_world CREDENTIALS_PATH \<and>
   fst (get_calendar_service empty_world) = Inr None \<and>
   fst (main empty_world echo_agent [''hello'', ''quit'']) = ExitCode 1 \<and>
   filter is_input (snd (main empty_world echo_agent [''hello'', ''quit''])) = []"
proof -
  have t: "\<not> path_exists empty_world TOKEN_PATH"
    and c: "\<not> path_exists empty_world CREDENTIALS_PATH"
    by (simp_all add: empty_world_def)
  show ?thesis
    using t c missing_secret_exits [OF t c, of echo_agent "[''hello'', ''quit'']"] by simp
qed

text \<open>
  C6 at the failing input: the stored token is expired and has no refresh token, and
  \<open>credentials.json\<close> exists. No refresh and no authorization flow run; the expired
  credential is written back to \<open>token.json\<close> and a service built from it is returned.
\<close>

theorem stale_session_returned:
  "\<not> valid stale_creds \<and> expired stale_creds \<and> refresh_token stale_creds = None \<and>
   path_exists stale_world CREDENTIALS_PATH \<and>
   get_calendar_service stale_world =
     (Inr (Some (Service stale_creds)),
      [PathExists ''token.json'', LoadToken, WriteToken stale_creds,
       Log INFO ''Credentials saved to token.json'', Build stale_creds]) \<and>
   filter is_flow (snd (get_calendar_service stale_world)) = []"
  by code_simp

text \<open>Each step of the acquisition in the states that C6 and C7 name.\<close>

lemma gcs_load_ok:
  assumes "path_exists w TOKEN_PATH" and "from_authorized_user_file w = Inr c"
  shows "gcs_load w = (Inr (Some c), [PathExists ''token.json'', LoadToken])"
  using assms by (simp add: gcs_load_def io_simps prod_eq_iff TOKEN_PATH_def)

lemma gcs_load_absent:
  assumes "\<not> path_exists w TOKEN_PATH"
  shows "gcs_load w = (Inr None, [PathExists ''token.json''])"
  using assms by (simp add: gcs_load_def io_simps prod_eq_iff TOKEN_PATH_def)

lemma gcs_load_malformed:
  assumes "path_exists w TOKEN_PATH" and "from_authorized_user_file w = Inl e"
  shows "gcs_load w =
    (Inr None,
     [PathExists ''token.json'', LoadToken,
      Log WARNING (''Could not load credentials from token.json: '' @ exn_str e)])"
  using assms by (simp add: gcs_load_def io_simps prod_eq_iff TOKEN_PATH_def)

lemma gcs_refresh_skipped:
  assumes "\<not> (expired c \<and> truthy (refresh_token c))"
  shows "gcs_refresh w (Some c) = (Inr (Some c), [])"
  using assms by (auto simp add: gcs_refresh_def ret_def)

lemma gcs_refresh_failed:
  assumes "expired c" and "truthy (refresh_token c)" and "refresh w c = Inl e"
  shows "gcs_refresh w (Some c) =
    (Inr None, [Refresh c, Log ERROR (''Error refreshing token: '' @ exn_str e)])"
  using assms by (simp add: gcs_refresh_def io_simps prod_eq_iff)

lemma gcs_refresh_none: "gcs_refresh w None = (Inr None, [])"
  by (simp add: gcs_refresh_def ret_def)

lemma gcs_login_some: "gcs_login w (Some c) = (Inr (Some c), [])"
  by (simp add: gcs_login_def ret_def)

lemma gcs_login_flow:
  assumes "path_exists w CREDENTIALS_PATH"
  shows "filter is_flow (snd (gcs_login w None)) = [RunFlow]"
  using assms by (simp add: gcs_login_def io_simps split: sum.splits)

lemma gcs_renew_none_flow:
  assumes "path_exists w CREDENTIALS_PATH"
  shows "filter is_flow (snd (gcs_renew w None)) = [RunFlow]"
  using gcs_login_flow [OF assms]
  by (simp add: gcs_renew_def gcs_refresh_none io_simps gcs_save_quiet gcs_build_quiet
      split: sum.splits option.splits)

text \<open>
  The same for every world: a loaded credential that is not valid and cannot be
  refreshed is kept, and the authorization flow does not run.
\<close>

lemma unrefreshable_credential_kept:
  assumes "path_exists w TOKEN_PATH" and "from_authorized_user_file w = Inr c"
    and "\<not> valid c" and "\<not> (expired c \<and> truthy (refresh_token c))"
  shows "filter is_flow (snd (get_calendar_service w)) = []"
    and "fst (get_calendar_service w) = fst (gcs_build w c)"
  using assms(3)
  by (simp_all add: get_calendar_service_def gcs_renew_def gcs_load_ok [OF assms(1,2)]
      gcs_refresh_skipped [OF assms(4)] gcs_login_some io_simps gcs_save_quiet gcs_build_quiet
      gcs_save_returns)

text \<open>
  The other states of C6 do reach the authorization flow when \<open>credentials.json\<close>
  exists: no token file, a token file that fails to parse (logged as a warning), and
  a refresh that fails (logged, the credential dropped).
\<close>

lemma absent_token_runs_flow:
  assumes "\<not> path_exists w TOKEN_PATH" and "path_exists w CREDENTIALS_PATH"
  shows "filter is_flow (snd (get_calendar_service w)) = [RunFlow]"
  using gcs_renew_none_flow [OF assms(2)]
  by (simp add: get_calendar_service_def gcs_load_absent [OF assms(1)] io_simps)

lemma malformed_token_runs_flow:
  assumes "path_exists w TOKEN_PATH" and "from_authorized_user_file w = Inl e"
    and "path_exists w CREDENTIALS_PATH"
  shows "filter is_flow (snd (get_calendar_service w)) = [RunFlow]"
    and "Log WARNING (''Could not load credentials from token.json: '' @ exn_str e)
           \<in> set (snd (get_calendar_service w))"
  using gcs_renew_none_flow [OF assms(3)]
  by (simp_all add: get_calendar_service_def gcs_load_malformed [OF assms(1,2)] io_simps)

lemma failed_refresh_runs_flow:
  assumes "path_exists w TOKEN_PATH" and "from_authorized_user_file w = Inr c"
    and "\<not> valid c" and "expired c" and "truthy (refresh_token c)"
    and "refresh w c = Inl e" and "path_exists w CREDENTIALS_PATH"
  shows "filter is_flow (snd (get_calendar_service w)) = [RunFlow]"
    and "Log ERROR (''Error refreshing token: '' @ exn_str e)
           \<in> set (snd (get_calendar_service w))"
  using assms(3) gcs_login_flow [OF assms(7)]
  by (simp_all add: get_calendar_service_def gcs_renew_def gcs_load_ok [OF assms(1,2)]
      gcs_refresh_failed [OF assms(4,5,6)] io_simps gcs_save_quiet gcs_build_quiet
      split: sum.splits option.splits)

text \<open>Two of these states at concrete worlds, with the whole trace.\<close>

lemma malformed_token_example:
  "get_calendar_service malformed_world =
     (Inr (Some (Service good_creds)),
      [PathExists ''token.json'', LoadToken,
       Log WARNING
         ''Could not load credentials from token.json: Expecting value: line 1 column 1 (char 0)'',
       PathExists ''credentials.json'', RunFlow, WriteToken good_creds,
       Log INFO ''Credentials saved to token.json'', Build good_creds])"
  by code_simp

lemma refused_refresh_example:
  "get_calendar_service refused_world =
     (Inr (Some (Service good_creds)),
      [PathExists ''token.json'', LoadToken, Refresh expired_creds,
       Log ERROR ''Error refreshing token: invalid_grant: Token has been expired or revoked.'',
       PathExists ''credentials.json'', RunFlow, WriteToken good_creds,
       Log INFO ''Credentials saved to token.json'', Build good_creds])"
  by code_simp

text \<open>
  C7, as the code has it. For every stored credential that loads and is valid, session
  acquisition makes no refresh request, runs no authorization flow and does not write
  the token file: its whole trace is the file check, the load and the call of \<open>build\<close>.
  It returns the service built from that credential when \<open>build\<close> succeeds; when
  \<open>build\<close> raises, the error is logged and \<open>None\<close> is returned.
\<close>

theorem valid_credential_no_auth_call:
  assumes "path_exists w TOKEN_PATH" and "from_authorized_user_file w = Inr c" and "valid c"
  shows "get_calendar_service w =
           (case build w c of
              Inr _ \<Rightarrow>
                (Inr (Some (Service c)), [PathExists ''token.json'', LoadToken, Build c])
            | Inl e \<Rightarrow>
                (Inr None,
                 [PathExists ''token.json'', LoadToken, Build c,
                  Log ERROR (''Error building Google Calendar service: '' @ exn_str e)])) \<and>
         filter is_refresh (snd (get_calendar_service w)) = [] \<and>
         filter is_flow (snd (get_calendar_service w)) = [] \<and>
         filter is_token_write (snd (get_calendar_service w)) = []"
proof -
  have g: "get_calendar_service w =
           (case build w c of
              Inr _ \<Rightarrow>
                (Inr (Some (Service c)), [PathExists ''token.json'', LoadToken, Build c])
            | Inl e \<Rightarrow>
                (Inr None,
                 [PathExists ''token.json'', LoadToken, Build c,
                  Log ERROR (''Error building Google Calendar service: '' @ exn_str e)]))"
    using assms
    by (simp add: get_calendar_service_def gcs_load_def gcs_build_eq io_simps prod_eq_iff
        TOKEN_PATH_def split: sum.splits)
  show ?thesis
    unfolding g by (simp split: sum.splits)
qed

theorem valid_credential_no_auth_call_witness:
  "path_exists mock_world TOKEN_PATH \<and> from_authorized_user_file mock_world = Inr good_creds \<and>
   valid good_creds \<and>
   get_calendar_service mock_world =
     (Inr (Some (Service good_creds)),
      [PathExists ''token.json'', LoadToken, Build good_creds]) \<and>
   filter is_refresh (snd (get_calendar_service mock_world)) = [] \<and>
   filter is_flow (snd (get_calendar_service mock_world)) = [] \<and>
   filter is_token_write (snd (get_calendar_service mock_world)) = []"
proof -
  have p: "path_exists mock_world TOKEN_PATH"
    and l: "from_authorized_user_file mock_world = Inr good_creds"
    and v: "valid good_creds"
    and b: "build mock_world good_creds = Inr ()"
    by (simp_all add: mock_world_def good_creds_def)
  show ?thesis
    using p l v valid_credential_no_auth_call [OF p l v] by (simp add: b)
qed

text \<open>
  C7 as stated fails: the stored credential is valid and unexpired, \<open>build\<close> raises, and
  no session is returned.
\<close>

theorem valid_credential_counterexample:
  "path_exists broken_build_world TOKEN_PATH \<and>
   from_authorized_user_file broken_build_world = Inr good_creds \<and>
   valid good_creds \<and> \<not> expired good_creds \<and>
   fst (get_calendar_service broken_build_world) = Inr None"
  by code_simp

section \<open>A turn and the conversation loop\<close>
















declare conversation_loop.simps [simp del]










lemma main_without_session:
  assumes "fst (get_calendar_service w) = Inr None"
  shows "main w agent stdin =
    (ExitCode 1, map Print banner @ snd (get_calendar_service w) @ map Print fatal_lines)"
proof -
  obtain t where g: "get_calendar_service w = (Inr None, t)"
    using assms by (cases "get_calendar_service w") simp
  show ?thesis
    by (simp add: main_def g io_bind_def print_lines_def ret_def)
qed






text \<open>
  A turn in which the runtime calls the tool carries the effects of the call: here the
  token file does not parse, the authorization flow runs and \<open>token.json\<close> is written.
\<close>

lemma tool_call_in_turn_rewrites_token:
  "filter is_token_write
     (snd (conversation_loop (booking_agent malformed_world) [''book the gym'', ''quit''] []))
     = [WriteToken good_creds] \<and>
   fst (conversation_loop (booking_agent malformed_world) [''book the gym'', ''quit''] []) =
     Inr [HumanMessage ''book the gym'', AIMessage ''Done.'']"
  by code_simp




end
